theory Spec2Isabelle
  imports Main "HOL-Library.Word" "HOL-Library.Signed_Division"
begin

section \<open>The SDL platform adapter of the Simple Tetris Clone (src/sdl/sdl_game.cpp)\<close>

text \<open>
  The adapter is a sequence of calls into SDL, SDL_image, SDL_mixer and the game engine.
  Each procedure of the source is embedded as a function that returns, in the order the
  source issues them, the calls it makes (a call trace). C++ \<open>int\<close> and \<open>long\<close> values are
  HOL integers (signed overflow is undefined behaviour in the source and is not modelled);
  the 16-bit fields of \<open>SDL_Rect\<close> are words, and every conversion into them is written out.
\<close>

subsection \<open>Library types\<close>

type_synonym Sint16 = "16 word"
type_synonym Uint16 = "16 word"

text \<open>Pointers handed out by the libraries; \<open>None\<close> is \<open>NULL\<close>.\<close>

type_synonym SDL_Surface_ptr = "nat option"
type_synonym Mix_Music_ptr = "nat option"
type_synonym Mix_Chunk_ptr = "nat option"

record SDL_Rect =
  rect_x :: Sint16
  rect_y :: Sint16
  rect_w :: Uint16
  rect_h :: Uint16

text \<open>
  A destination rectangle: the source only assigns its \<open>x\<close> and \<open>y\<close> fields
  (\<open>SDL_BlitSurface\<close> reads nothing else of it), so it is the pair of the two.
\<close>

type_synonym dst_pos = "Sint16 \<times> Sint16"

datatype SDLKey =
    SDLK_ESCAPE | SDLK_s | SDLK_DOWN | SDLK_w | SDLK_UP | SDLK_a | SDLK_LEFT
  | SDLK_d | SDLK_RIGHT | SDLK_SPACE | SDLK_F5 | SDLK_F1 | SDLK_F2 | SDLK_F3
  | SDLK_other nat

datatype SDL_Event =
    SDL_QUIT
  | SDL_KEYDOWN SDLKey
  | SDL_KEYUP SDLKey
  | SDL_other_event nat

datatype subsystem = SDL_INIT_VIDEO | SDL_INIT_AUDIO

datatype audio_format = AUDIO_S16

subsection \<open>Declarations of the engine and of the adapter's header\<close>

text \<open>
  Modelled from the spec: the enumeration \<open>Game::ERROR_*\<close> is declared in the engine's
  header, which is not part of the sources at hand. The constructors are the four
  enumerators that \<open>init\<close> returns; section 7 of the specification names them
  PlatformInitFailure (\<open>ERROR_PLATFORM\<close>), VideoSurfaceFailure (\<open>ERROR_NO_VIDEO\<close>) and
  AssetLoadFailure (\<open>ERROR_NO_IMAGES\<close>) and calls them distinct statuses.
\<close>

datatype error_code = ERROR_NONE | ERROR_PLATFORM | ERROR_NO_VIDEO | ERROR_NO_IMAGES

text \<open>
  Modelled from the spec: the enumeration \<open>Game::EVENT_*\<close> (engine header, not at hand),
  the closed set of semantic events of section 3.
\<close>

datatype EventType =
    EVENT_QUIT | EVENT_MOVE_DOWN | EVENT_ROTATE_CW | EVENT_MOVE_LEFT | EVENT_MOVE_RIGHT
  | EVENT_DROP | EVENT_RESTART | EVENT_PAUSE | EVENT_SHOW_NEXT | EVENT_SHOW_SHADOW

text \<open>
  Modelled from the spec: the tetromino shape identifiers \<open>Game::TETROMINO_*\<close> (engine
  header, not at hand) that index \<open>stats().pieces\<close>; the seven shapes the source names.
\<close>

datatype TetrominoType =
    TETROMINO_I | TETROMINO_O | TETROMINO_T | TETROMINO_S
  | TETROMINO_Z | TETROMINO_J | TETROMINO_L

text \<open>
  Modelled from the spec: the asset path macros (fixed image and audio asset paths,
  section 6). Their values are in a header that is not at hand; an asset is named by its
  macro.
\<close>

datatype asset =
    STC_BMP_TILE_BLOCKS | STC_BMP_BACKGROUND | STC_BMP_NUMBERS
  | STC_SND_MUSIC | STC_SND_LINE | STC_SND_DROP

text \<open>
  The numeric constants of \<open>sdl_game.hpp\<close> (screen layout) and of the engine's header
  (\<open>Game::\<close>), and the two preprocessor switches the source tests. None of the
  declarations is at hand, so every function takes them as a parameter.
\<close>

record layout =
  SCREEN_WIDTH :: int
  SCREEN_HEIGHT :: int
  SCREEN_BIT_DEPTH :: int
  SCREEN_VIDEO_MODE :: int
  SLEEP_TIME :: int
  TILE_SIZE :: int
  BOARD_X :: int
  BOARD_Y :: int
  PREVIEW_X :: int
  PREVIEW_Y :: int
  NUMBER_WIDTH :: int
  NUMBER_HEIGHT :: int
  LEVEL_X :: int
  LEVEL_Y :: int
  LEVEL_LENGTH :: int
  LINES_X :: int
  LINES_Y :: int
  LINES_LENGTH :: int
  SCORE_X :: int
  SCORE_Y :: int
  SCORE_LENGTH :: int
  TETROMINO_X :: int
  TETROMINO_L_Y :: int
  TETROMINO_I_Y :: int
  TETROMINO_T_Y :: int
  TETROMINO_S_Y :: int
  TETROMINO_Z_Y :: int
  TETROMINO_O_Y :: int
  TETROMINO_J_Y :: int
  TETROMINO_LENGTH :: int
  PIECES_X :: int
  PIECES_Y :: int
  PIECES_LENGTH :: int

record game_consts =
  TETROMINO_SIZE :: int
  BOARD_TILEMAP_WIDTH :: int
  BOARD_TILEMAP_HEIGHT :: int
  EMPTY_CELL :: int
  COLOR_WHITE :: int
  COLOR_ORANGE :: int
  COLOR_CYAN :: int
  COLOR_PURPLE :: int
  COLOR_GREEN :: int
  COLOR_RED :: int
  COLOR_YELLOW :: int
  COLOR_BLUE :: int

record config =
  lay :: layout
  gc :: game_consts
  STC_SHOW_GHOST_PIECE :: bool
  STC_AUTO_ROTATION :: bool

text \<open>
  Modelled from the spec: the engine's query interface (section 6), as the values the
  queries return during one call of the adapter. \<open>blk_cells b i j\<close> is \<open>b.cells[i][j]\<close>,
  \<open>blk_x\<close> and \<open>blk_y\<close> are the fields \<open>x\<close> and \<open>y\<close> of a block.
\<close>

record StcTetromino =
  blk_cells :: "int \<Rightarrow> int \<Rightarrow> int"
  blk_x :: int
  blk_y :: int

record StcStatistics =
  level :: int
  lines :: int
  score :: int
  totalPieces :: int
  pieces :: "TetrominoType \<Rightarrow> int"

record Game =
  hasChanged :: bool
  showPreview :: bool
  showShadow :: bool
  shadowGap :: int
  nextBlock :: StcTetromino
  fallingBlock :: StcTetromino
  getCell :: "int \<Rightarrow> int \<Rightarrow> int"
  stats :: StcStatistics
  isPaused :: bool

subsection \<open>Calls and the adapter's members\<close>

datatype call =
    srand "32 word"
  | SDL_Init "subsystem list"
  | SDL_SetVideoMode int int int int
  | SDL_WM_SetCaption
  | IMG_Load asset
  | Mix_OpenAudio int audio_format int int
  | Mix_LoadMUS asset
  | Mix_LoadWAV asset
  | Mix_PlayMusic Mix_Music_ptr int
  | onEventStart EventType
  | onEventEnd EventType
  | SDL_BlitSurface SDL_Surface_ptr "SDL_Rect option" SDL_Surface_ptr "dst_pos option"
  | onChangeProcessed
  | SDL_Flip SDL_Surface_ptr
  | SDL_Delay int

record PlatformSdl =
  mScreen :: SDL_Surface_ptr
  mBmpTiles :: SDL_Surface_ptr
  mBmpBack :: SDL_Surface_ptr
  mBmpNumbers :: SDL_Surface_ptr
  mMusic :: Mix_Music_ptr
  mSoundLine :: Mix_Chunk_ptr
  mSoundDrop :: Mix_Chunk_ptr
  mGame :: "nat option"

text \<open>
  What the environment answers to the calls of \<open>init\<close>: the clock value \<open>time(NULL)\<close>
  (a signed \<open>time_t\<close>) and the results of the calls that can fail.
\<close>

record sdl_env =
  time_now :: int
  SDL_Init_ret :: int
  SDL_SetVideoMode_ret :: SDL_Surface_ptr
  IMG_Load_ret :: "asset \<Rightarrow> SDL_Surface_ptr"
  Mix_OpenAudio_ret :: int
  Mix_LoadMUS_ret :: "asset \<Rightarrow> Mix_Music_ptr"
  Mix_LoadWAV_ret :: "asset \<Rightarrow> Mix_Chunk_ptr"

subsection \<open>init\<close>

text \<open>
  \<open>init\<close> returns its status, the members as it leaves them, and the calls it made.
  A negative result of \<open>SDL_Init\<close>, a null pointer from \<open>SDL_SetVideoMode\<close> or from one of
  the three \<open>IMG_Load\<close> calls, and a non-zero result of \<open>Mix_OpenAudio\<close> end it early.
  The pointers returned by \<open>Mix_LoadMUS\<close> and \<open>Mix_LoadWAV\<close> are stored and not tested.
  The seed is \<open>(unsigned int)(time(NULL))\<close>: the clock value converted to a 32-bit word.
\<close>

definition init :: "config \<Rightarrow> sdl_env \<Rightarrow> PlatformSdl \<Rightarrow> nat \<Rightarrow> error_code \<times> PlatformSdl \<times> call list" where
  "init K env p game =
    (let t1 = [srand (of_int (time_now env)), SDL_Init [SDL_INIT_VIDEO, SDL_INIT_AUDIO]] in
     if SDL_Init_ret env < 0 then (ERROR_PLATFORM, p, t1)
     else
       let p1 = p\<lparr>mScreen := SDL_SetVideoMode_ret env\<rparr>;
           t2 = t1 @ [SDL_SetVideoMode (SCREEN_WIDTH (lay K)) (SCREEN_HEIGHT (lay K))
                        (SCREEN_BIT_DEPTH (lay K)) (SCREEN_VIDEO_MODE (lay K))] in
       if mScreen p1 = None then (ERROR_NO_VIDEO, p1, t2)
       else
         let p2 = p1\<lparr>mBmpTiles := IMG_Load_ret env STC_BMP_TILE_BLOCKS,
                      mBmpBack := IMG_Load_ret env STC_BMP_BACKGROUND,
                      mBmpNumbers := IMG_Load_ret env STC_BMP_NUMBERS\<rparr>;
             t3 = t2 @ [SDL_WM_SetCaption, IMG_Load STC_BMP_TILE_BLOCKS,
                        IMG_Load STC_BMP_BACKGROUND, IMG_Load STC_BMP_NUMBERS] in
         if mBmpTiles p2 = None \<or> mBmpBack p2 = None \<or> mBmpNumbers p2 = None
         then (ERROR_NO_IMAGES, p2, t3)
         else
           let t4 = t3 @ [Mix_OpenAudio 44100 AUDIO_S16 2 4096] in
           if Mix_OpenAudio_ret env \<noteq> 0 then (ERROR_PLATFORM, p2, t4)
           else
             let p3 = p2\<lparr>mMusic := Mix_LoadMUS_ret env STC_SND_MUSIC,
                          mSoundLine := Mix_LoadWAV_ret env STC_SND_LINE,
                          mSoundDrop := Mix_LoadWAV_ret env STC_SND_DROP\<rparr>;
                 t5 = t4 @ [Mix_LoadMUS STC_SND_MUSIC, Mix_LoadWAV STC_SND_LINE,
                            Mix_LoadWAV STC_SND_DROP, Mix_PlayMusic (mMusic p3) (- 1)] in
             (ERROR_NONE, p3\<lparr>mGame := Some game\<rparr>, t5))"

subsection \<open>processEvents\<close>

text \<open>
  The pending input records are a list; \<open>SDL_PollEvent\<close> hands them out front to back and
  the loop ends when none is left. The \<open>SDL_KEYUP\<close> case has no \<open>break\<close> and falls into
  \<open>default\<close>, which does nothing.
\<close>

fun processEvents :: "config \<Rightarrow> SDL_Event list \<Rightarrow> call list" where
  "processEvents K [] = []"
| "processEvents K (event # queue) =
    (case event of
       SDL_QUIT \<Rightarrow> [onEventStart EVENT_QUIT]
     | SDL_KEYDOWN keysym \<Rightarrow>
         (case keysym of
            SDLK_ESCAPE \<Rightarrow> [onEventStart EVENT_QUIT]
          | SDLK_s \<Rightarrow> [onEventStart EVENT_MOVE_DOWN]
          | SDLK_DOWN \<Rightarrow> [onEventStart EVENT_MOVE_DOWN]
          | SDLK_w \<Rightarrow> [onEventStart EVENT_ROTATE_CW]
          | SDLK_UP \<Rightarrow> [onEventStart EVENT_ROTATE_CW]
          | SDLK_a \<Rightarrow> [onEventStart EVENT_MOVE_LEFT]
          | SDLK_LEFT \<Rightarrow> [onEventStart EVENT_MOVE_LEFT]
          | SDLK_d \<Rightarrow> [onEventStart EVENT_MOVE_RIGHT]
          | SDLK_RIGHT \<Rightarrow> [onEventStart EVENT_MOVE_RIGHT]
          | SDLK_SPACE \<Rightarrow> [onEventStart EVENT_DROP]
          | SDLK_F5 \<Rightarrow> [onEventStart EVENT_RESTART]
          | SDLK_F1 \<Rightarrow> [onEventStart EVENT_PAUSE]
          | SDLK_F2 \<Rightarrow> [onEventStart EVENT_SHOW_NEXT]
          | SDLK_F3 \<Rightarrow> if STC_SHOW_GHOST_PIECE K then [onEventStart EVENT_SHOW_SHADOW] else []
          | SDLK_other _ \<Rightarrow> [])
     | SDL_KEYUP keysym \<Rightarrow>
         (case keysym of
            SDLK_s \<Rightarrow> [onEventEnd EVENT_MOVE_DOWN]
          | SDLK_DOWN \<Rightarrow> [onEventEnd EVENT_MOVE_DOWN]
          | SDLK_a \<Rightarrow> [onEventEnd EVENT_MOVE_LEFT]
          | SDLK_LEFT \<Rightarrow> [onEventEnd EVENT_MOVE_LEFT]
          | SDLK_d \<Rightarrow> [onEventEnd EVENT_MOVE_RIGHT]
          | SDLK_RIGHT \<Rightarrow> [onEventEnd EVENT_MOVE_RIGHT]
          | SDLK_w \<Rightarrow> if STC_AUTO_ROTATION K then [onEventEnd EVENT_ROTATE_CW] else []
          | SDLK_UP \<Rightarrow> if STC_AUTO_ROTATION K then [onEventEnd EVENT_ROTATE_CW] else []
          | _ \<Rightarrow> [])
     | SDL_other_event _ \<Rightarrow> [])
    @ processEvents K queue"

subsection \<open>drawTile and drawNumber\<close>

definition drawTile :: "config \<Rightarrow> PlatformSdl \<Rightarrow> int \<Rightarrow> int \<Rightarrow> int \<Rightarrow> bool \<Rightarrow> call list" where
  "drawTile K p x y tile shadow =
    (let recDestine = (of_int x :: Sint16, of_int y :: Sint16);
         recSource = \<lparr>rect_x = of_int (TILE_SIZE (lay K) * tile),
                      rect_y = of_int ((TILE_SIZE (lay K) + 1) * (if shadow then 1 else 0)),
                      rect_w = of_int (TILE_SIZE (lay K) + 1),
                      rect_h = of_int (TILE_SIZE (lay K) + 1)\<rparr>
     in [SDL_BlitSurface (mBmpTiles p) (Some recSource) (mScreen p) (Some recDestine)])"

text \<open>
  The \<open>do ... while (++pos < length)\<close> loop of \<open>drawNumber\<close>, entered with the current
  \<open>number\<close> and \<open>pos\<close>: the body runs before the test. \<open>%\<close> and \<open>/\<close> on \<open>long\<close> truncate
  towards zero (\<open>smod\<close>, \<open>sdiv\<close>).
\<close>

function drawNumber_loop ::
  "config \<Rightarrow> PlatformSdl \<Rightarrow> int \<Rightarrow> int \<Rightarrow> int \<Rightarrow> int \<Rightarrow> int \<Rightarrow> int \<Rightarrow> call list" where
  "drawNumber_loop K p x y number len color pos =
     SDL_BlitSurface (mBmpNumbers p)
       (Some \<lparr>rect_x = of_int (NUMBER_WIDTH (lay K) * sint (of_int (number smod 10) :: Sint16)),
              rect_y = of_int (NUMBER_HEIGHT (lay K) * color),
              rect_w = of_int (NUMBER_WIDTH (lay K)),
              rect_h = of_int (NUMBER_HEIGHT (lay K))\<rparr>)
       (mScreen p)
       (Some (of_int (x + NUMBER_WIDTH (lay K) * (len - pos)), of_int y))
     # (if pos + 1 < len
        then drawNumber_loop K p x y (number sdiv 10) len color (pos + 1)
        else [])"
  by pat_completeness auto
termination
  by (relation "measure (\<lambda>(K, p, x, y, number, len, color, pos). nat (len - pos))") auto

definition drawNumber :: "config \<Rightarrow> PlatformSdl \<Rightarrow> int \<Rightarrow> int \<Rightarrow> int \<Rightarrow> int \<Rightarrow> int \<Rightarrow> call list" where
  "drawNumber K p x y number len color = drawNumber_loop K p x y number len color 0"

subsection \<open>renderGame\<close>

text \<open>\<open>for (i = lo; i < hi; ++i) body(i)\<close>, as the calls of the bodies in order.\<close>

function for_loop :: "int \<Rightarrow> int \<Rightarrow> (int \<Rightarrow> call list) \<Rightarrow> call list" where
  "for_loop i hi body = (if i < hi then body i @ for_loop (i + 1) hi body else [])"
  by pat_completeness auto
termination
  by (relation "measure (\<lambda>(i, hi, body). nat (hi - i))") auto

definition renderGame :: "config \<Rightarrow> PlatformSdl \<Rightarrow> Game \<Rightarrow> call list" where
  "renderGame K p g =
    (if hasChanged g then
       [SDL_BlitSurface (mBmpBack p) None (mScreen p) None]
       @ (if showPreview g then
            for_loop 0 (TETROMINO_SIZE (gc K)) (\<lambda>i.
              for_loop 0 (TETROMINO_SIZE (gc K)) (\<lambda>j.
                if blk_cells (nextBlock g) i j \<noteq> EMPTY_CELL (gc K)
                then drawTile K p (PREVIEW_X (lay K) + TILE_SIZE (lay K) * i)
                                  (PREVIEW_Y (lay K) + TILE_SIZE (lay K) * j)
                                  (blk_cells (nextBlock g) i j) False
                else []))
          else [])
       @ (if STC_SHOW_GHOST_PIECE K \<and> showShadow g \<and> shadowGap g > 0 then
            for_loop 0 (TETROMINO_SIZE (gc K)) (\<lambda>i.
              for_loop 0 (TETROMINO_SIZE (gc K)) (\<lambda>j.
                if blk_cells (fallingBlock g) i j \<noteq> EMPTY_CELL (gc K)
                then drawTile K p
                       (BOARD_X (lay K) + TILE_SIZE (lay K) * (blk_x (fallingBlock g) + i))
                       (BOARD_Y (lay K)
                          + TILE_SIZE (lay K) * (blk_y (fallingBlock g) + shadowGap g + j))
                       (blk_cells (fallingBlock g) i j) True
                else []))
          else [])
       @ for_loop 0 (BOARD_TILEMAP_WIDTH (gc K)) (\<lambda>i.
           for_loop 0 (BOARD_TILEMAP_HEIGHT (gc K)) (\<lambda>j.
             if getCell g i j \<noteq> EMPTY_CELL (gc K)
             then drawTile K p (BOARD_X (lay K) + TILE_SIZE (lay K) * i)
                               (BOARD_Y (lay K) + TILE_SIZE (lay K) * j)
                               (getCell g i j) False
             else []))
       @ for_loop 0 (TETROMINO_SIZE (gc K)) (\<lambda>i.
           for_loop 0 (TETROMINO_SIZE (gc K)) (\<lambda>j.
             if blk_cells (fallingBlock g) i j \<noteq> EMPTY_CELL (gc K)
             then drawTile K p
                    (BOARD_X (lay K) + TILE_SIZE (lay K) * (blk_x (fallingBlock g) + i))
                    (BOARD_Y (lay K) + TILE_SIZE (lay K) * (blk_y (fallingBlock g) + j))
                    (blk_cells (fallingBlock g) i j) False
             else []))
       @ (if \<not> isPaused g then
            drawNumber K p (LEVEL_X (lay K)) (LEVEL_Y (lay K)) (level (stats g))
              (LEVEL_LENGTH (lay K)) (COLOR_WHITE (gc K))
            @ drawNumber K p (LINES_X (lay K)) (LINES_Y (lay K)) (lines (stats g))
                (LINES_LENGTH (lay K)) (COLOR_WHITE (gc K))
            @ drawNumber K p (SCORE_X (lay K)) (SCORE_Y (lay K)) (score (stats g))
                (SCORE_LENGTH (lay K)) (COLOR_WHITE (gc K))
            @ drawNumber K p (TETROMINO_X (lay K)) (TETROMINO_L_Y (lay K))
                (pieces (stats g) TETROMINO_L) (TETROMINO_LENGTH (lay K)) (COLOR_ORANGE (gc K))
            @ drawNumber K p (TETROMINO_X (lay K)) (TETROMINO_I_Y (lay K))
                (pieces (stats g) TETROMINO_I) (TETROMINO_LENGTH (lay K)) (COLOR_CYAN (gc K))
            @ drawNumber K p (TETROMINO_X (lay K)) (TETROMINO_T_Y (lay K))
                (pieces (stats g) TETROMINO_T) (TETROMINO_LENGTH (lay K)) (COLOR_PURPLE (gc K))
            @ drawNumber K p (TETROMINO_X (lay K)) (TETROMINO_S_Y (lay K))
                (pieces (stats g) TETROMINO_S) (TETROMINO_LENGTH (lay K)) (COLOR_GREEN (gc K))
            @ drawNumber K p (TETROMINO_X (lay K)) (TETROMINO_Z_Y (lay K))
                (pieces (stats g) TETROMINO_Z) (TETROMINO_LENGTH (lay K)) (COLOR_RED (gc K))
            @ drawNumber K p (TETROMINO_X (lay K)) (TETROMINO_O_Y (lay K))
                (pieces (stats g) TETROMINO_O) (TETROMINO_LENGTH (lay K)) (COLOR_YELLOW (gc K))
            @ drawNumber K p (TETROMINO_X (lay K)) (TETROMINO_J_Y (lay K))
                (pieces (stats g) TETROMINO_J) (TETROMINO_LENGTH (lay K)) (COLOR_BLUE (gc K))
            @ drawNumber K p (PIECES_X (lay K)) (PIECES_Y (lay K)) (totalPieces (stats g))
                (PIECES_LENGTH (lay K)) (COLOR_WHITE (gc K))
          else [])
       @ [onChangeProcessed, SDL_Flip (mScreen p)]
     else [])
    @ [SDL_Delay (SLEEP_TIME (lay K))]"

subsection \<open>Consecutive iterations\<close>

text \<open>
  Consecutive calls of \<open>renderGame\<close>, one per loop iteration, each against the engine
  state of its iteration; the trace is the traces of the calls one after the other.
\<close>

definition render_iterations :: "config \<Rightarrow> PlatformSdl \<Rightarrow> Game list \<Rightarrow> call list" where
  "render_iterations K p gs = concat (map (renderGame K p) gs)"

section \<open>Vocabulary of the specification\<close>

fun is_blit :: "call \<Rightarrow> bool" where
  "is_blit (SDL_BlitSurface src srcrect dst dstrect) = True"
| "is_blit c = False"

fun is_flip :: "call \<Rightarrow> bool" where
  "is_flip (SDL_Flip s) = True"
| "is_flip c = False"

fun is_delay :: "call \<Rightarrow> bool" where
  "is_delay (SDL_Delay ms) = True"
| "is_delay c = False"

text \<open>The calls that take the surface \<open>s\<close> as the one they draw on or present.\<close>

fun writes_surface :: "SDL_Surface_ptr \<Rightarrow> call \<Rightarrow> bool" where
  "writes_surface s (SDL_BlitSurface src srcrect dst dstrect) = (dst = s)"
| "writes_surface s (SDL_Flip t) = (t = s)"
| "writes_surface s c = False"


text \<open>
  The blit of the glyph of \<open>digit\<close> in the colour row \<open>color\<close>, at the \<open>k\<close>-th position
  counted leftwards in a field of \<open>len\<close> digits whose origin is \<open>(x, y)\<close>.
\<close>

definition glyph_blit ::
  "config \<Rightarrow> PlatformSdl \<Rightarrow> int \<Rightarrow> int \<Rightarrow> int \<Rightarrow> int \<Rightarrow> int \<Rightarrow> int \<Rightarrow> call" where
  "glyph_blit K p x y len color digit k =
     SDL_BlitSurface (mBmpNumbers p)
       (Some \<lparr>rect_x = of_int (NUMBER_WIDTH (lay K) * digit),
              rect_y = of_int (NUMBER_HEIGHT (lay K) * color),
              rect_w = of_int (NUMBER_WIDTH (lay K)),
              rect_h = of_int (NUMBER_HEIGHT (lay K))\<rparr>)
       (mScreen p)
       (Some (of_int (x + NUMBER_WIDTH (lay K) * (len - k)), of_int y))"

text \<open>
  The square of the tile atlas that holds the tile \<open>tile\<close>: the normal variant in the
  first row, the ghost variant one row of \<open>TILE_SIZE + 1\<close> pixels below.
\<close>

definition tile_src :: "config \<Rightarrow> int \<Rightarrow> bool \<Rightarrow> SDL_Rect" where
  "tile_src K tile ghost =
     \<lparr>rect_x = of_int (TILE_SIZE (lay K) * tile),
      rect_y = (if ghost then of_int (TILE_SIZE (lay K) + 1) else 0),
      rect_w = of_int (TILE_SIZE (lay K) + 1),
      rect_h = of_int (TILE_SIZE (lay K) + 1)\<rparr>"

text \<open>
  A cell of a grid that a rendering pass visits: its tile identifier, the screen
  position it is drawn at, and whether it belongs to the ghost piece.
\<close>

record drawn_cell =
  cell_tile :: int
  cell_x :: int
  cell_y :: int
  cell_ghost :: bool

text \<open>
  The cells of a \<open>w\<close> by \<open>h\<close> grid in the order the nested loops visit them (columns
  outside, rows inside), anchored at \<open>(ox, oy)\<close> on the screen.
\<close>

definition grid_cells ::
  "config \<Rightarrow> (int \<Rightarrow> int \<Rightarrow> int) \<Rightarrow> int \<Rightarrow> int \<Rightarrow> int \<Rightarrow> int \<Rightarrow> bool \<Rightarrow> drawn_cell list" where
  "grid_cells K cells w h ox oy ghost =
     map (\<lambda>(i, j). \<lparr>cell_tile = cells i j,
                     cell_x = ox + TILE_SIZE (lay K) * i,
                     cell_y = oy + TILE_SIZE (lay K) * j,
                     cell_ghost = ghost\<rparr>)
       (List.product [0..w - 1] [0..h - 1])"

definition preview_cells :: "config \<Rightarrow> Game \<Rightarrow> drawn_cell list" where
  "preview_cells K g =
     grid_cells K (blk_cells (nextBlock g)) (TETROMINO_SIZE (gc K)) (TETROMINO_SIZE (gc K))
       (PREVIEW_X (lay K)) (PREVIEW_Y (lay K)) False"

definition ghost_cells :: "config \<Rightarrow> Game \<Rightarrow> drawn_cell list" where
  "ghost_cells K g =
     grid_cells K (blk_cells (fallingBlock g)) (TETROMINO_SIZE (gc K)) (TETROMINO_SIZE (gc K))
       (BOARD_X (lay K) + TILE_SIZE (lay K) * blk_x (fallingBlock g))
       (BOARD_Y (lay K) + TILE_SIZE (lay K) * (blk_y (fallingBlock g) + shadowGap g)) True"

definition board_cells :: "config \<Rightarrow> Game \<Rightarrow> drawn_cell list" where
  "board_cells K g =
     grid_cells K (getCell g) (BOARD_TILEMAP_WIDTH (gc K)) (BOARD_TILEMAP_HEIGHT (gc K))
       (BOARD_X (lay K)) (BOARD_Y (lay K)) False"

definition falling_cells :: "config \<Rightarrow> Game \<Rightarrow> drawn_cell list" where
  "falling_cells K g =
     grid_cells K (blk_cells (fallingBlock g)) (TETROMINO_SIZE (gc K)) (TETROMINO_SIZE (gc K))
       (BOARD_X (lay K) + TILE_SIZE (lay K) * blk_x (fallingBlock g))
       (BOARD_Y (lay K) + TILE_SIZE (lay K) * blk_y (fallingBlock g)) False"

text \<open>Drawing a list of cells: the non-empty ones, one \<open>drawTile\<close> each, in order.\<close>

definition draw_cells :: "config \<Rightarrow> PlatformSdl \<Rightarrow> drawn_cell list \<Rightarrow> call list" where
  "draw_cells K p cs =
     concat (map (\<lambda>c. if cell_tile c \<noteq> EMPTY_CELL (gc K)
                       then drawTile K p (cell_x c) (cell_y c) (cell_tile c) (cell_ghost c)
                       else []) cs)"

text \<open>
  The cells of all the grids that one rendering pass visits, in order: the preview grid
  when the preview is shown, the ghost grid when the ghost piece is compiled in, shown
  and has a positive gap, the board, the falling piece.
\<close>

definition drawn_cells :: "config \<Rightarrow> Game \<Rightarrow> drawn_cell list" where
  "drawn_cells K g =
     (if showPreview g then preview_cells K g else [])
     @ (if STC_SHOW_GHOST_PIECE K \<and> showShadow g \<and> 0 < shadowGap g then ghost_cells K g else [])
     @ board_cells K g
     @ falling_cells K g"

text \<open>
  The cells of the four grids, whether the pass visits them or not, and the blits that
  read the tile atlas.
\<close>

definition all_grid_cells :: "config \<Rightarrow> Game \<Rightarrow> drawn_cell list" where
  "all_grid_cells K g =
     preview_cells K g @ ghost_cells K g @ board_cells K g @ falling_cells K g"

fun is_tile_blit :: "PlatformSdl \<Rightarrow> call \<Rightarrow> bool" where
  "is_tile_blit p (SDL_BlitSurface src srcrect dst dstrect) = (src = mBmpTiles p)"
| "is_tile_blit p c = False"

text \<open>The numerals of the head-up display, in the order of the specification.\<close>

definition hud_numerals :: "config \<Rightarrow> PlatformSdl \<Rightarrow> Game \<Rightarrow> call list" where
  "hud_numerals K p g =
     concat (map (\<lambda>(x, y, number, len, color). drawNumber K p x y number len color)
       [(LEVEL_X (lay K), LEVEL_Y (lay K), level (stats g), LEVEL_LENGTH (lay K), COLOR_WHITE (gc K)),
        (LINES_X (lay K), LINES_Y (lay K), lines (stats g), LINES_LENGTH (lay K), COLOR_WHITE (gc K)),
        (SCORE_X (lay K), SCORE_Y (lay K), score (stats g), SCORE_LENGTH (lay K), COLOR_WHITE (gc K)),
        (TETROMINO_X (lay K), TETROMINO_L_Y (lay K), pieces (stats g) TETROMINO_L,
           TETROMINO_LENGTH (lay K), COLOR_ORANGE (gc K)),
        (TETROMINO_X (lay K), TETROMINO_I_Y (lay K), pieces (stats g) TETROMINO_I,
           TETROMINO_LENGTH (lay K), COLOR_CYAN (gc K)),
        (TETROMINO_X (lay K), TETROMINO_T_Y (lay K), pieces (stats g) TETROMINO_T,
           TETROMINO_LENGTH (lay K), COLOR_PURPLE (gc K)),
        (TETROMINO_X (lay K), TETROMINO_S_Y (lay K), pieces (stats g) TETROMINO_S,
           TETROMINO_LENGTH (lay K), COLOR_GREEN (gc K)),
        (TETROMINO_X (lay K), TETROMINO_Z_Y (lay K), pieces (stats g) TETROMINO_Z,
           TETROMINO_LENGTH (lay K), COLOR_RED (gc K)),
        (TETROMINO_X (lay K), TETROMINO_O_Y (lay K), pieces (stats g) TETROMINO_O,
           TETROMINO_LENGTH (lay K), COLOR_YELLOW (gc K)),
        (TETROMINO_X (lay K), TETROMINO_J_Y (lay K), pieces (stats g) TETROMINO_J,
           TETROMINO_LENGTH (lay K), COLOR_BLUE (gc K)),
        (PIECES_X (lay K), PIECES_Y (lay K), totalPieces (stats g), PIECES_LENGTH (lay K),
           COLOR_WHITE (gc K))])"

text \<open>
  The key table of the input mapper (section 4.4 and the design notes): a key, the
  semantic event it starts, and whether releasing it ends that event. The ghost toggle is
  in the table only when the ghost piece is compiled in; the rotation keys are held keys
  only under automatic rotation.
\<close>

definition key_table :: "config \<Rightarrow> (SDLKey \<times> EventType \<times> bool) list" where
  "key_table K =
     [(SDLK_ESCAPE, EVENT_QUIT, False),
      (SDLK_s, EVENT_MOVE_DOWN, True), (SDLK_DOWN, EVENT_MOVE_DOWN, True),
      (SDLK_w, EVENT_ROTATE_CW, STC_AUTO_ROTATION K),
      (SDLK_UP, EVENT_ROTATE_CW, STC_AUTO_ROTATION K),
      (SDLK_a, EVENT_MOVE_LEFT, True), (SDLK_LEFT, EVENT_MOVE_LEFT, True),
      (SDLK_d, EVENT_MOVE_RIGHT, True), (SDLK_RIGHT, EVENT_MOVE_RIGHT, True),
      (SDLK_SPACE, EVENT_DROP, False),
      (SDLK_F5, EVENT_RESTART, False),
      (SDLK_F1, EVENT_PAUSE, False),
      (SDLK_F2, EVENT_SHOW_NEXT, False)]
     @ (if STC_SHOW_GHOST_PIECE K then [(SDLK_F3, EVENT_SHOW_SHADOW, False)] else [])"

text \<open>The events one input record stands for, by the key table.\<close>

definition record_events :: "config \<Rightarrow> SDL_Event \<Rightarrow> call list" where
  "record_events K event =
     (case event of
        SDL_QUIT \<Rightarrow> [onEventStart EVENT_QUIT]
      | SDL_KEYDOWN k \<Rightarrow>
          (case map_of (key_table K) k of
             Some (e, held) \<Rightarrow> [onEventStart e]
           | None \<Rightarrow> [])
      | SDL_KEYUP k \<Rightarrow>
          (case map_of (key_table K) k of
             Some (e, held) \<Rightarrow> if held then [onEventEnd e] else []
           | None \<Rightarrow> [])
      | SDL_other_event n \<Rightarrow> [])"

text \<open>The calls of a complete, successful \<open>init\<close>, in the order of section 4.1.\<close>

definition init_sequence :: "config \<Rightarrow> sdl_env \<Rightarrow> call list" where
  "init_sequence K env =
     [srand (of_int (time_now env)),
      SDL_Init [SDL_INIT_VIDEO, SDL_INIT_AUDIO],
      SDL_SetVideoMode (SCREEN_WIDTH (lay K)) (SCREEN_HEIGHT (lay K))
        (SCREEN_BIT_DEPTH (lay K)) (SCREEN_VIDEO_MODE (lay K)),
      SDL_WM_SetCaption,
      IMG_Load STC_BMP_TILE_BLOCKS, IMG_Load STC_BMP_BACKGROUND, IMG_Load STC_BMP_NUMBERS,
      Mix_OpenAudio 44100 AUDIO_S16 2 4096,
      Mix_LoadMUS STC_SND_MUSIC, Mix_LoadWAV STC_SND_LINE, Mix_LoadWAV STC_SND_DROP,
      Mix_PlayMusic (Mix_LoadMUS_ret env STC_SND_MUSIC) (- 1)]"

section \<open>A sample configuration\<close>

text \<open>
  Concrete values for the constants and for the engine state, used to instantiate the
  theorems below. The header that fixes the real constants is not at hand; these are
  plausible values for a 480 by 272 screen with 12-pixel tiles and a 10 by 22 board.
\<close>

definition sample_layout :: layout where
  "sample_layout =
     \<lparr>SCREEN_WIDTH = 480, SCREEN_HEIGHT = 272, SCREEN_BIT_DEPTH = 32, SCREEN_VIDEO_MODE = 0,
      SLEEP_TIME = 40, TILE_SIZE = 12, BOARD_X = 180, BOARD_Y = 4,
      PREVIEW_X = 112, PREVIEW_Y = 210, NUMBER_WIDTH = 7, NUMBER_HEIGHT = 9,
      LEVEL_X = 108, LEVEL_Y = 16, LEVEL_LENGTH = 5,
      LINES_X = 108, LINES_Y = 34, LINES_LENGTH = 5,
      SCORE_X = 72, SCORE_Y = 52, SCORE_LENGTH = 10,
      TETROMINO_X = 425, TETROMINO_L_Y = 53, TETROMINO_I_Y = 77, TETROMINO_T_Y = 101,
      TETROMINO_S_Y = 125, TETROMINO_Z_Y = 149, TETROMINO_O_Y = 173, TETROMINO_J_Y = 197,
      TETROMINO_LENGTH = 5, PIECES_X = 418, PIECES_Y = 241, PIECES_LENGTH = 6\<rparr>"

definition sample_game_consts :: game_consts where
  "sample_game_consts =
     \<lparr>TETROMINO_SIZE = 4, BOARD_TILEMAP_WIDTH = 10, BOARD_TILEMAP_HEIGHT = 22, EMPTY_CELL = 0,
      COLOR_WHITE = 0, COLOR_ORANGE = 1, COLOR_CYAN = 2, COLOR_PURPLE = 3, COLOR_GREEN = 4,
      COLOR_RED = 5, COLOR_YELLOW = 6, COLOR_BLUE = 7\<rparr>"

definition sample_config :: config where
  "sample_config =
     \<lparr>lay = sample_layout, gc = sample_game_consts,
      STC_SHOW_GHOST_PIECE = True, STC_AUTO_ROTATION = False\<rparr>"

definition sample_platform :: PlatformSdl where
  "sample_platform =
     \<lparr>mScreen = Some 1, mBmpTiles = Some 2, mBmpBack = Some 3, mBmpNumbers = Some 4,
      mMusic = Some 5, mSoundLine = Some 6, mSoundDrop = Some 7, mGame = Some 0\<rparr>"

definition sample_game :: Game where
  "sample_game =
     \<lparr>hasChanged = True, showPreview = True, showShadow = True, shadowGap = 5,
      nextBlock = \<lparr>blk_cells = (\<lambda>i j. if i = 1 then 3 else 0), blk_x = 0, blk_y = 0\<rparr>,
      fallingBlock = \<lparr>blk_cells = (\<lambda>i j. if j = 1 then 5 else 0), blk_x = 3, blk_y = 2\<rparr>,
      getCell = (\<lambda>i j. if j = 21 then 1 else 0),
      stats = \<lparr>level = 1, lines = 12, score = 3400, totalPieces = 25, pieces = (\<lambda>t. 3)\<rparr>,
      isPaused = False\<rparr>"

definition idle_game :: Game where
  "idle_game = sample_game\<lparr>hasChanged := False\<rparr>"

definition hidden_preview_game :: Game where
  "hidden_preview_game = sample_game\<lparr>showPreview := False\<rparr>"

text \<open>An environment in which every call of \<open>init\<close> succeeds.\<close>

definition sample_env :: sdl_env where
  "sample_env =
     \<lparr>time_now = 1300000000, SDL_Init_ret = 0, SDL_SetVideoMode_ret = Some 1,
      IMG_Load_ret = (\<lambda>a. case a of STC_BMP_TILE_BLOCKS \<Rightarrow> Some 2
                                | STC_BMP_BACKGROUND \<Rightarrow> Some 3
                                | STC_BMP_NUMBERS \<Rightarrow> Some 4
                                | _ \<Rightarrow> None),
      Mix_OpenAudio_ret = 0,
      Mix_LoadMUS_ret = (\<lambda>a. case a of STC_SND_MUSIC \<Rightarrow> Some 5 | _ \<Rightarrow> None),
      Mix_LoadWAV_ret = (\<lambda>a. case a of STC_SND_LINE \<Rightarrow> Some 6
                                   | STC_SND_DROP \<Rightarrow> Some 7
                                   | _ \<Rightarrow> None)\<rparr>"

text \<open>The members before \<open>init\<close> has run.\<close>

definition null_platform :: PlatformSdl where
  "null_platform =
     \<lparr>mScreen = None, mBmpTiles = None, mBmpBack = None, mBmpNumbers = None,
      mMusic = None, mSoundLine = None, mSoundDrop = None, mGame = None\<rparr>"

section \<open>Lemmas\<close>

subsection \<open>Truncating division by ten\<close>

lemma sdiv_pos: "0 < b \<Longrightarrow> (a::int) sdiv b = sgn a * (\<bar>a\<bar> div b)"
  by (simp add: signed_divide_int_def)

lemma abs_sdiv_pos: "0 < b \<Longrightarrow> \<bar>(a::int) sdiv b\<bar> = \<bar>a\<bar> div b"
  by (cases "a = 0") (simp_all add: sdiv_pos abs_mult abs_sgn_eq pos_imp_zdiv_nonneg_iff)

lemma sdiv_sdiv_pos:
  assumes "0 < b" "0 < c"
  shows "((a::int) sdiv b) sdiv c = a sdiv (b * c)"
proof (cases "\<bar>a\<bar> < b")
  case True
  then have "\<bar>a\<bar> < b * c" using assms
    by (smt (verit) mult_le_cancel_left1)
  with True assms show ?thesis by (simp add: sdiv_pos)
next
  case False
  then have "0 < \<bar>a\<bar> div b" using assms
    by (simp add: pos_imp_zdiv_pos_iff)
  then have "sgn (a sdiv b) = sgn a" using assms
    by (cases "a < 0"; cases "a = 0") (simp_all add: sdiv_pos sgn_mult)
  then show ?thesis using assms
    by (simp add: sdiv_pos[of c] sdiv_pos[of "b * c"] abs_sdiv_pos zdiv_zmult2_eq)
qed

lemma sdiv_10_pow: "((n::int) sdiv 10) sdiv 10 ^ k = n sdiv 10 ^ Suc k"
  using sdiv_sdiv_pos[of 10 "10 ^ k" n] by simp

lemma smod_10_bounds: "- 10 < (n::int) smod 10 \<and> n smod 10 < 10"
proof (cases "n < 0")
  case True
  have "\<bar>n\<bar> mod 10 < 10" "0 \<le> \<bar>n\<bar> mod 10" by simp_all
  with True show ?thesis by (simp add: signed_modulo_int_def)
next
  case False
  have "\<bar>n\<bar> mod 10 < 10" "0 \<le> \<bar>n\<bar> mod 10" by simp_all
  with False show ?thesis by (cases "n = 0") (simp_all add: signed_modulo_int_def)
qed

lemma sint_smod_10: "sint (of_int ((n::int) smod 10) :: 16 word) = n smod 10"
  using smod_10_bounds[of n] by (simp add: signed_of_int signed_take_bit_int_eq_self)

lemma sdiv_nonneg: "0 \<le> (a::int) \<Longrightarrow> 0 < b \<Longrightarrow> a sdiv b = a div b"
  by (cases "a = 0") (simp_all add: sdiv_pos)

lemma smod_10_nonneg: "0 \<le> (a::int) \<Longrightarrow> a smod 10 = a mod 10"
  by (cases "a = 0") (simp_all add: signed_modulo_int_def)

lemma sdiv_smod_nonneg:
  assumes "0 \<le> (n::int)"
  shows "(n sdiv 10 ^ k) smod 10 = (n div 10 ^ k) mod 10"
proof -
  have "n sdiv 10 ^ k = n div 10 ^ k"
    using assms by (simp add: sdiv_nonneg)
  moreover have "0 \<le> n div 10 ^ k"
    using assms by (simp add: pos_imp_zdiv_nonneg_iff)
  ultimately show ?thesis by (simp add: smod_10_nonneg)
qed

subsection \<open>The loop of drawNumber\<close>

declare drawNumber_loop.simps [simp del]

lemma drawNumber_loop_last:
  "len \<le> pos + 1 \<Longrightarrow>
   drawNumber_loop K p x y number len color pos =
     [glyph_blit K p x y len color (number smod 10) pos]"
  by (subst drawNumber_loop.simps) (simp add: glyph_blit_def sint_smod_10)

lemma drawNumber_loop_step:
  "pos + 1 < len \<Longrightarrow>
   drawNumber_loop K p x y number len color pos =
     glyph_blit K p x y len color (number smod 10) pos
     # drawNumber_loop K p x y (number sdiv 10) len color (pos + 1)"
  by (subst drawNumber_loop.simps) (simp add: glyph_blit_def sint_smod_10)

lemma upt_nat_step:
  "pos + 1 < len \<Longrightarrow> [0..<nat (len - pos)] = 0 # map Suc [0..<nat (len - (pos + 1))]"
proof -
  assume "pos + 1 < len"
  then have "nat (len - pos) = Suc (nat (len - (pos + 1)))" by simp
  then show ?thesis by (simp add: upt_conv_Cons map_Suc_upt del: upt_Suc)
qed

lemma drawNumber_loop_eq:
  "pos < len \<Longrightarrow>
   drawNumber_loop K p x y number len color pos =
     map (\<lambda>k. glyph_blit K p x y len color ((number sdiv 10 ^ k) smod 10) (pos + int k))
       [0..<nat (len - pos)]"
proof (induction K p x y number len color pos rule: drawNumber_loop.induct)
  case (1 K p x y number len color pos)
  show ?case
  proof (cases "pos + 1 < len")
    case True
    have "drawNumber_loop K p x y (number sdiv 10) len color (pos + 1) =
        map (\<lambda>k. glyph_blit K p x y len color (((number sdiv 10) sdiv 10 ^ k) smod 10)
               (pos + 1 + int k)) [0..<nat (len - (pos + 1))]"
      using "1.IH"[OF True] True by simp
    then show ?thesis
      using True
      by (simp add: drawNumber_loop_step upt_nat_step sdiv_10_pow comp_def add.assoc
               del: power_Suc)
  next
    case False
    with "1.prems" have "len = pos + 1" by simp
    then show ?thesis
      by (simp add: drawNumber_loop_last)
  qed
qed

lemma drawNumber_loop_length:
  "length (drawNumber_loop K p x y number len color pos) = nat (max (len - pos) 1)"
proof (cases "pos < len")
  case True
  then show ?thesis by (simp add: drawNumber_loop_eq)
next
  case False
  then show ?thesis by (simp add: drawNumber_loop_last)
qed

subsection \<open>The loops of renderGame\<close>

declare for_loop.simps [simp del]

lemma for_loop_concat: "for_loop i hi body = concat (map body [i..hi - 1])"
proof (induction i hi body rule: for_loop.induct)
  case (1 i hi body)
  show ?case
  proof (cases "i < hi")
    case True
    then have "[i..hi - 1] = i # [i + 1..hi - 1]"
      by (simp add: upto_rec1)
    with True "1.IH" show ?thesis
      by (subst for_loop.simps) simp
  next
    case False
    then show ?thesis
      by (subst for_loop.simps) simp
  qed
qed

lemma concat_product:
  "concat (map (\<lambda>i. concat (map (f i) ys)) xs) = concat (map (\<lambda>(i, j). f i j) (List.product xs ys))"
  by (induction xs) (simp_all add: comp_def)

lemma nested_for_loop:
  "for_loop 0 w (\<lambda>i. for_loop 0 h (f i)) =
     concat (map (\<lambda>(i, j). f i j) (List.product [0..w - 1] [0..h - 1]))"
  by (simp add: for_loop_concat concat_product)

lemma draw_grid_cells:
  "draw_cells K p (grid_cells K cells w h ox oy ghost) =
     concat (map (\<lambda>(i, j). if cells i j \<noteq> EMPTY_CELL (gc K)
         then drawTile K p (ox + TILE_SIZE (lay K) * i) (oy + TILE_SIZE (lay K) * j) (cells i j) ghost
         else []) (List.product [0..w - 1] [0..h - 1]))"
  by (simp add: draw_cells_def grid_cells_def comp_def case_prod_unfold cong: if_cong)

lemma draw_cells_append: "draw_cells K p (cs @ ds) = draw_cells K p cs @ draw_cells K p ds"
  by (simp add: draw_cells_def)

lemma draw_cells_Nil: "draw_cells K p [] = []"
  by (simp add: draw_cells_def)

lemma renderGame_frame:
  assumes "hasChanged g"
  shows "renderGame K p g =
     SDL_BlitSurface (mBmpBack p) None (mScreen p) None
     # draw_cells K p (drawn_cells K g)
     @ (if isPaused g then [] else hud_numerals K p g)
     @ [onChangeProcessed, SDL_Flip (mScreen p), SDL_Delay (SLEEP_TIME (lay K))]"
  using assms
  by (simp add: renderGame_def drawn_cells_def draw_cells_append draw_cells_Nil
      preview_cells_def ghost_cells_def board_cells_def falling_cells_def
      draw_grid_cells nested_for_loop hud_numerals_def ring_distribs add.assoc cong: if_cong)

lemma drawTile_tile_src:
  "drawTile K p x y tile ghost =
     [SDL_BlitSurface (mBmpTiles p) (Some (tile_src K tile ghost)) (mScreen p)
        (Some (of_int x, of_int y))]"
  by (simp add: drawTile_def tile_src_def)

lemma draw_cells_blits:
  "draw_cells K p cs =
     concat (map (\<lambda>c. if cell_tile c = EMPTY_CELL (gc K) then []
          else [SDL_BlitSurface (mBmpTiles p) (Some (tile_src K (cell_tile c) (cell_ghost c)))
                  (mScreen p) (Some (of_int (cell_x c), of_int (cell_y c)))]) cs)"
  unfolding draw_cells_def
  by (rule arg_cong [where f = concat], rule map_cong) (simp_all add: drawTile_tile_src)

lemma draw_cells_all_blits: "\<forall>c\<in>set (draw_cells K p cs). is_blit c"
  by (auto simp: draw_cells_blits split: if_splits)

lemma draw_cells_length:
  "length (draw_cells K p cs) = length (filter (\<lambda>c. cell_tile c \<noteq> EMPTY_CELL (gc K)) cs)"
  by (induction cs) (simp_all add: draw_cells_def drawTile_def)

lemma drawNumber_all_blits: "\<forall>c\<in>set (drawNumber K p x y number len color). is_blit c"
proof (cases "0 < len")
  case True
  then show ?thesis
    by (auto simp: drawNumber_def drawNumber_loop_eq glyph_blit_def)
next
  case False
  then show ?thesis
    by (simp add: drawNumber_def drawNumber_loop_last glyph_blit_def)
qed

lemma drawNumber_not_Nil: "drawNumber K p x y number len color \<noteq> []"
  using drawNumber_loop_length [of K p x y number len color 0]
  by (auto simp: drawNumber_def)

lemma hud_numerals_all_blits: "\<forall>c\<in>set (hud_numerals K p g). is_blit c"
proof
  fix c assume "c \<in> set (hud_numerals K p g)"
  then obtain x y number len color where "c \<in> set (drawNumber K p x y number len color)"
    by (auto simp: hud_numerals_def)
  then show "is_blit c"
    using drawNumber_all_blits by blast
qed

lemma is_blit_not_flip: "is_blit c \<Longrightarrow> \<not> is_flip c"
  by (cases c) simp_all

lemma hud_numerals_not_Nil: "hud_numerals K p g \<noteq> []"
  by (simp add: hud_numerals_def drawNumber_not_Nil)

lemma renderGame_changed_split:
  assumes "hasChanged g"
  shows "\<exists>bs. renderGame K p g =
            bs @ [onChangeProcessed, SDL_Flip (mScreen p), SDL_Delay (SLEEP_TIME (lay K))]
          \<and> (\<forall>c\<in>set bs. is_blit c)"
proof -
  let ?bs = "SDL_BlitSurface (mBmpBack p) None (mScreen p) None
     # draw_cells K p (drawn_cells K g) @ (if isPaused g then [] else hud_numerals K p g)"
  have "renderGame K p g =
      ?bs @ [onChangeProcessed, SDL_Flip (mScreen p), SDL_Delay (SLEEP_TIME (lay K))]"
    using renderGame_frame [OF assms, of K p] by simp
  moreover have "\<forall>c\<in>set ?bs. is_blit c"
    using draw_cells_all_blits [of K p "drawn_cells K g"] hud_numerals_all_blits [of K p g]
    by auto
  ultimately show ?thesis by blast
qed

lemma renderGame_idle: "\<not> hasChanged g \<Longrightarrow> renderGame K p g = [SDL_Delay (SLEEP_TIME (lay K))]"
  by (simp add: renderGame_def)

subsection \<open>The input mapper and the sample values\<close>

lemma processEvents_record_events:
  "processEvents K q = concat (map (record_events K) q)"
proof (induction q)
  case Nil
  show ?case by simp
next
  case (Cons event queue)
  have "processEvents K [event] = record_events K event"
  proof (cases event)
    case (SDL_KEYDOWN k)
    then show ?thesis
      by (cases k) (simp_all add: record_events_def key_table_def)
  next
    case (SDL_KEYUP k)
    then show ?thesis
      by (cases k) (simp_all add: record_events_def key_table_def)
  qed (simp_all add: record_events_def)
  with Cons.IH show ?case by simp
qed

lemmas sample_defs = sample_config_def sample_layout_def sample_game_consts_def
  sample_game_def sample_platform_def

section \<open>The claims\<close>

subsection \<open>Frame composer\<close>

text \<open>
  Claim C1. A call of \<open>renderGame\<close> that finds \<open>hasChanged()\<close> false makes one call only, the
  sleep of \<open>SLEEP_TIME\<close>: no blit, no flip, no \<open>onChangeProcessed()\<close>, and nothing that draws on
  or presents the screen surface. So any number of consecutive unchanged iterations gives
  that many sleeps of the fixed delay and no flip.
\<close>

theorem renderGame_unchanged:
  "(\<forall>g\<in>set gs. \<not> hasChanged g) \<Longrightarrow>
     (\<forall>g\<in>set gs. renderGame K p g = [SDL_Delay (SLEEP_TIME (lay K))])
   \<and> render_iterations K p gs = replicate (length gs) (SDL_Delay (SLEEP_TIME (lay K)))
   \<and> filter is_blit (render_iterations K p gs) = []
   \<and> filter is_flip (render_iterations K p gs) = []
   \<and> onChangeProcessed \<notin> set (render_iterations K p gs)
   \<and> (\<forall>c\<in>set (render_iterations K p gs). \<not> writes_surface (mScreen p) c)
   \<and> length (filter is_delay (render_iterations K p gs)) = length gs"
proof -
  assume idle: "\<forall>g\<in>set gs. \<not> hasChanged g"
  then have each: "\<forall>g\<in>set gs. renderGame K p g = [SDL_Delay (SLEEP_TIME (lay K))]"
    by (simp add: renderGame_idle)
  from idle have its: "render_iterations K p gs = replicate (length gs) (SDL_Delay (SLEEP_TIME (lay K)))"
    unfolding render_iterations_def
    by (induction gs) (simp_all add: renderGame_idle)
  show ?thesis
    using each by (simp add: its)
qed

theorem renderGame_unchanged_witness:
  "\<not> hasChanged idle_game
   \<and> renderGame sample_config sample_platform idle_game = [SDL_Delay 40]
   \<and> render_iterations sample_config sample_platform (replicate 10 idle_game) =
       replicate 10 (SDL_Delay 40)
   \<and> length (filter is_flip (render_iterations sample_config sample_platform (replicate 10 idle_game))) = 0
   \<and> length (filter is_blit (render_iterations sample_config sample_platform (replicate 10 idle_game))) = 0
   \<and> length (filter is_delay (render_iterations sample_config sample_platform (replicate 10 idle_game))) = 10"
proof -
  have idle: "\<forall>g\<in>set (replicate 10 idle_game). \<not> hasChanged g"
    by (simp add: idle_game_def)
  note th = renderGame_unchanged [OF idle, of sample_config sample_platform]
  have "SLEEP_TIME (lay sample_config) = 40"
    by (simp add: sample_config_def sample_layout_def)
  with th show ?thesis
    by (simp add: idle_game_def)
qed

text \<open>
  Claim C2. A call of \<open>renderGame\<close> that finds \<open>hasChanged()\<close> true makes its blits first,
  then exactly one \<open>onChangeProcessed()\<close>, then the single \<open>SDL_Flip\<close>, then the sleep: the
  trace is its longest prefix of blits, which holds every blit of the trace, followed by
  these three calls.
\<close>

theorem renderGame_acknowledge:
  "hasChanged g \<Longrightarrow>
     renderGame K p g =
       takeWhile is_blit (renderGame K p g)
       @ [onChangeProcessed, SDL_Flip (mScreen p), SDL_Delay (SLEEP_TIME (lay K))]
   \<and> filter is_blit (renderGame K p g) = takeWhile is_blit (renderGame K p g)
   \<and> count_list (renderGame K p g) onChangeProcessed = 1
   \<and> length (filter is_flip (renderGame K p g)) = 1"
proof -
  assume "hasChanged g"
  then obtain bs where
    t: "renderGame K p g =
          bs @ [onChangeProcessed, SDL_Flip (mScreen p), SDL_Delay (SLEEP_TIME (lay K))]"
    and bs: "\<forall>c\<in>set bs. is_blit c"
    using renderGame_changed_split [of g K p] by blast
  from bs have tw: "takeWhile is_blit (renderGame K p g) = bs"
    by (simp add: t takeWhile_tail)
  from bs have fl: "filter is_blit bs = bs" "filter is_flip bs = []"
    by (auto simp: filter_empty_conv is_blit_not_flip)
  from bs have "onChangeProcessed \<notin> set bs" by auto
  then have cnt: "count_list bs onChangeProcessed = 0" by simp
  show ?thesis
    unfolding tw using fl cnt by (simp add: t)
qed

theorem renderGame_acknowledge_witness:
  "hasChanged sample_game
   \<and> renderGame sample_config sample_platform sample_game =
       takeWhile is_blit (renderGame sample_config sample_platform sample_game)
       @ [onChangeProcessed, SDL_Flip (Some 1), SDL_Delay 40]
   \<and> count_list (renderGame sample_config sample_platform sample_game) onChangeProcessed = 1
   \<and> length (filter is_flip (renderGame sample_config sample_platform sample_game)) = 1"
proof -
  have changed: "hasChanged sample_game"
    by (simp add: sample_game_def)
  have "SLEEP_TIME (lay sample_config) = 40" "mScreen sample_platform = Some 1"
    by (simp_all add: sample_config_def sample_layout_def sample_platform_def)
  with renderGame_acknowledge [OF changed, of sample_config sample_platform] changed
  show ?thesis by simp
qed

text \<open>
  Claim C6, amended. In a rendering pass, every cell of every grid the pass visits (the
  board and the falling piece in every pass, the preview grid when the preview is shown,
  the ghost grid when the ghost piece is compiled in, shown and has a positive gap)
  contributes no blit when it holds \<open>EMPTY_CELL\<close> and exactly one blit otherwise; the
  source rectangle of that blit is \<open>tile_src\<close> of the cell's tile identifier and of the
  ghost mode, and of nothing else. The trace of the pass is the background blit, these
  contributions cell by cell, the numerals, and the three closing calls, so the pass
  issues as many tile blits as it visits non-empty cells.
\<close>

theorem renderGame_cells:
  "hasChanged g \<Longrightarrow>
     renderGame K p g =
       SDL_BlitSurface (mBmpBack p) None (mScreen p) None
       # concat (map (\<lambda>c. if cell_tile c = EMPTY_CELL (gc K) then []
                    else [SDL_BlitSurface (mBmpTiles p)
                            (Some (tile_src K (cell_tile c) (cell_ghost c)))
                            (mScreen p) (Some (of_int (cell_x c), of_int (cell_y c)))])
           (drawn_cells K g))
       @ (if isPaused g then [] else hud_numerals K p g)
       @ [onChangeProcessed, SDL_Flip (mScreen p), SDL_Delay (SLEEP_TIME (lay K))]
   \<and> length (renderGame K p g) =
       1 + length (filter (\<lambda>c. cell_tile c \<noteq> EMPTY_CELL (gc K)) (drawn_cells K g))
       + (if isPaused g then 0 else length (hud_numerals K p g)) + 3"
proof
  assume changed: "hasChanged g"
  show "renderGame K p g =
       SDL_BlitSurface (mBmpBack p) None (mScreen p) None
       # concat (map (\<lambda>c. if cell_tile c = EMPTY_CELL (gc K) then []
                    else [SDL_BlitSurface (mBmpTiles p)
                            (Some (tile_src K (cell_tile c) (cell_ghost c)))
                            (mScreen p) (Some (of_int (cell_x c), of_int (cell_y c)))])
           (drawn_cells K g))
       @ (if isPaused g then [] else hud_numerals K p g)
       @ [onChangeProcessed, SDL_Flip (mScreen p), SDL_Delay (SLEEP_TIME (lay K))]"
    using renderGame_frame [OF changed, of K p] by (simp add: draw_cells_blits)
  show "length (renderGame K p g) =
       1 + length (filter (\<lambda>c. cell_tile c \<noteq> EMPTY_CELL (gc K)) (drawn_cells K g))
       + (if isPaused g then 0 else length (hud_numerals K p g)) + 3"
    by (simp add: renderGame_frame [OF changed] draw_cells_length)
qed

theorem renderGame_cells_witness:
  "hasChanged sample_game
   \<and> take 6 (renderGame sample_config sample_platform sample_game) =
       [SDL_BlitSurface (Some 3) None (Some 1) None,
        SDL_BlitSurface (Some 2) (Some \<lparr>rect_x = 36, rect_y = 0, rect_w = 13, rect_h = 13\<rparr>)
          (Some 1) (Some (124, 210)),
        SDL_BlitSurface (Some 2) (Some \<lparr>rect_x = 36, rect_y = 0, rect_w = 13, rect_h = 13\<rparr>)
          (Some 1) (Some (124, 222)),
        SDL_BlitSurface (Some 2) (Some \<lparr>rect_x = 36, rect_y = 0, rect_w = 13, rect_h = 13\<rparr>)
          (Some 1) (Some (124, 234)),
        SDL_BlitSurface (Some 2) (Some \<lparr>rect_x = 36, rect_y = 0, rect_w = 13, rect_h = 13\<rparr>)
          (Some 1) (Some (124, 246)),
        SDL_BlitSurface (Some 2) (Some \<lparr>rect_x = 60, rect_y = 13, rect_w = 13, rect_h = 13\<rparr>)
          (Some 1) (Some (216, 100))]
   \<and> length (drawn_cells sample_config sample_game) = 268
   \<and> length (filter (\<lambda>c. cell_tile c \<noteq> 0) (drawn_cells sample_config sample_game)) = 22
   \<and> length (renderGame sample_config sample_platform sample_game) = 87"
proof -
  have changed: "hasChanged sample_game"
    by (simp add: sample_game_def)
  have cells: "length (drawn_cells sample_config sample_game) = 268"
      "length (filter (\<lambda>c. cell_tile c \<noteq> 0) (drawn_cells sample_config sample_game)) = 22"
    by (simp_all add: drawn_cells_def preview_cells_def ghost_cells_def board_cells_def
        falling_cells_def grid_cells_def sample_defs upto.simps)
  have hud: "length (hud_numerals sample_config sample_platform sample_game) = 61"
    by (simp add: hud_numerals_def sample_defs drawNumber_def drawNumber_loop_length)
  note th = renderGame_cells [OF changed, of sample_config sample_platform]
  have "take 6 (renderGame sample_config sample_platform sample_game) =
       [SDL_BlitSurface (Some 3) None (Some 1) None,
        SDL_BlitSurface (Some 2) (Some \<lparr>rect_x = 36, rect_y = 0, rect_w = 13, rect_h = 13\<rparr>)
          (Some 1) (Some (124, 210)),
        SDL_BlitSurface (Some 2) (Some \<lparr>rect_x = 36, rect_y = 0, rect_w = 13, rect_h = 13\<rparr>)
          (Some 1) (Some (124, 222)),
        SDL_BlitSurface (Some 2) (Some \<lparr>rect_x = 36, rect_y = 0, rect_w = 13, rect_h = 13\<rparr>)
          (Some 1) (Some (124, 234)),
        SDL_BlitSurface (Some 2) (Some \<lparr>rect_x = 36, rect_y = 0, rect_w = 13, rect_h = 13\<rparr>)
          (Some 1) (Some (124, 246)),
        SDL_BlitSurface (Some 2) (Some \<lparr>rect_x = 60, rect_y = 13, rect_w = 13, rect_h = 13\<rparr>)
          (Some 1) (Some (216, 100))]"
    by (subst th)
      (simp add: drawn_cells_def preview_cells_def ghost_cells_def board_cells_def
        falling_cells_def grid_cells_def tile_src_def sample_defs upto.simps)
  moreover have "length (renderGame sample_config sample_platform sample_game) = 87"
    by (subst th)
      (simp add: hud, simp add: drawn_cells_def preview_cells_def ghost_cells_def board_cells_def
        falling_cells_def grid_cells_def sample_defs upto.simps)
  ultimately show ?thesis
    using changed cells by simp
qed

text \<open>
  Claim C6 as it is stated fails for a grid the pass does not visit: with the preview
  switched off, the non-empty cell \<open>(1, 0)\<close> of the preview grid gets no blit, and the pass
  issues 18 tile blits although the four grids hold 22 non-empty cells.
\<close>

theorem renderGame_hidden_preview_counterexample:
  "hasChanged hidden_preview_game
   \<and> \<not> showPreview hidden_preview_game
   \<and> blk_cells (nextBlock hidden_preview_game) 1 0 = 3
   \<and> EMPTY_CELL (gc sample_config) = 0
   \<and> drawTile sample_config sample_platform 124 210 3 False =
       [SDL_BlitSurface (Some 2) (Some \<lparr>rect_x = 36, rect_y = 0, rect_w = 13, rect_h = 13\<rparr>)
          (Some 1) (Some (124, 210))]
   \<and> SDL_BlitSurface (Some 2) (Some \<lparr>rect_x = 36, rect_y = 0, rect_w = 13, rect_h = 13\<rparr>)
         (Some 1) (Some (124, 210))
       \<notin> set (renderGame sample_config sample_platform hidden_preview_game)
   \<and> length (filter (\<lambda>c. cell_tile c \<noteq> EMPTY_CELL (gc sample_config))
        (all_grid_cells sample_config hidden_preview_game)) = 22
   \<and> length (filter (is_tile_blit sample_platform)
        (renderGame sample_config sample_platform hidden_preview_game)) = 18"
proof -
  have changed: "hasChanged hidden_preview_game"
    by (simp add: hidden_preview_game_def sample_game_def)
  have hud: "filter (is_tile_blit sample_platform)
       (hud_numerals sample_config sample_platform hidden_preview_game) = []"
    by (simp add: hud_numerals_def drawNumber_def drawNumber_loop_eq glyph_blit_def
        hidden_preview_game_def sample_defs)
  have glyphs: "SDL_BlitSurface (Some 2) (Some \<lparr>rect_x = 36, rect_y = 0, rect_w = 13, rect_h = 13\<rparr>)
         (Some 1) (Some (124, 210))
       \<notin> set (hud_numerals sample_config sample_platform hidden_preview_game)"
  proof
    assume "SDL_BlitSurface (Some 2) (Some \<lparr>rect_x = 36, rect_y = 0, rect_w = 13, rect_h = 13\<rparr>)
         (Some 1) (Some (124, 210))
       \<in> set (hud_numerals sample_config sample_platform hidden_preview_game)"
    with hud have "\<not> is_tile_blit sample_platform
        (SDL_BlitSurface (Some 2) (Some \<lparr>rect_x = 36, rect_y = 0, rect_w = 13, rect_h = 13\<rparr>)
           (Some 1) (Some (124, 210)))"
      unfolding filter_empty_conv by blast
    then show False
      by (simp add: sample_platform_def)
  qed
  have cells: "length (filter (\<lambda>c. cell_tile c \<noteq> EMPTY_CELL (gc sample_config))
        (all_grid_cells sample_config hidden_preview_game)) = 22"
    by (simp add: all_grid_cells_def preview_cells_def ghost_cells_def board_cells_def
        falling_cells_def grid_cells_def hidden_preview_game_def sample_defs upto.simps)
  have absent: "SDL_BlitSurface (Some 2) (Some \<lparr>rect_x = 36, rect_y = 0, rect_w = 13, rect_h = 13\<rparr>)
         (Some 1) (Some (124, 210))
       \<notin> set (renderGame sample_config sample_platform hidden_preview_game)"
    using glyphs
    by (subst renderGame_frame [OF changed])
      (simp add: draw_cells_blits drawn_cells_def ghost_cells_def board_cells_def
        falling_cells_def grid_cells_def tile_src_def hidden_preview_game_def sample_defs
        upto.simps)
  have blits: "length (filter (is_tile_blit sample_platform)
        (renderGame sample_config sample_platform hidden_preview_game)) = 18"
    by (subst renderGame_frame [OF changed])
      (simp add: hud, simp add: draw_cells_blits drawn_cells_def ghost_cells_def
        board_cells_def falling_cells_def grid_cells_def hidden_preview_game_def sample_defs
        upto.simps)
  have tile: "drawTile sample_config sample_platform 124 210 3 False =
       [SDL_BlitSurface (Some 2) (Some \<lparr>rect_x = 36, rect_y = 0, rect_w = 13, rect_h = 13\<rparr>)
          (Some 1) (Some (124, 210))]"
    by (simp add: drawTile_def sample_defs)
  show ?thesis
    using changed cells absent blits tile
    by (simp add: hidden_preview_game_def sample_defs)
qed

text \<open>
  Claim C9. A rendering pass draws in this order: the whole background; the preview grid,
  only when \<open>showPreview()\<close> holds; the ghost piece, only when \<open>showShadow()\<close> holds and
  \<open>shadowGap()\<close> is positive (and the ghost piece is compiled in), lowered by the gap and in
  ghost mode; the non-empty cells of the board; the falling piece at its own position; and
  the numerals (level, lines, score, the count of each shape in its colour, the total of
  pieces) exactly when the game is not paused. The numerals are never an empty list of
  calls, so they are drawn if and only if \<open>isPaused()\<close> is false.
\<close>

theorem renderGame_order:
  "hasChanged g \<Longrightarrow>
     renderGame K p g =
       [SDL_BlitSurface (mBmpBack p) None (mScreen p) None]
       @ (if showPreview g then draw_cells K p (preview_cells K g) else [])
       @ (if STC_SHOW_GHOST_PIECE K \<and> showShadow g \<and> 0 < shadowGap g
          then draw_cells K p (ghost_cells K g) else [])
       @ draw_cells K p (board_cells K g)
       @ draw_cells K p (falling_cells K g)
       @ (if \<not> isPaused g then hud_numerals K p g else [])
       @ [onChangeProcessed, SDL_Flip (mScreen p), SDL_Delay (SLEEP_TIME (lay K))]
   \<and> hud_numerals K p g \<noteq> []"
  using renderGame_frame [of g K p]
  by (simp add: drawn_cells_def draw_cells_append draw_cells_Nil hud_numerals_not_Nil)

theorem renderGame_order_witness:
  "hasChanged sample_game
   \<and> renderGame sample_config sample_platform sample_game =
       [SDL_BlitSurface (Some 3) None (Some 1) None]
       @ draw_cells sample_config sample_platform (preview_cells sample_config sample_game)
       @ draw_cells sample_config sample_platform (ghost_cells sample_config sample_game)
       @ draw_cells sample_config sample_platform (board_cells sample_config sample_game)
       @ draw_cells sample_config sample_platform (falling_cells sample_config sample_game)
       @ hud_numerals sample_config sample_platform sample_game
       @ [onChangeProcessed, SDL_Flip (Some 1), SDL_Delay 40]
   \<and> length (draw_cells sample_config sample_platform (preview_cells sample_config sample_game)) = 4
   \<and> length (draw_cells sample_config sample_platform (ghost_cells sample_config sample_game)) = 4
   \<and> length (draw_cells sample_config sample_platform (board_cells sample_config sample_game)) = 10
   \<and> length (draw_cells sample_config sample_platform (falling_cells sample_config sample_game)) = 4
   \<and> length (hud_numerals sample_config sample_platform sample_game) = 61"
proof -
  have changed: "hasChanged sample_game"
    by (simp add: sample_game_def)
  have flags: "showPreview sample_game" "STC_SHOW_GHOST_PIECE sample_config"
      "showShadow sample_game" "0 < shadowGap sample_game" "\<not> isPaused sample_game"
      "mBmpBack sample_platform = Some 3" "mScreen sample_platform = Some 1"
      "SLEEP_TIME (lay sample_config) = 40"
    by (simp_all add: sample_defs)
  have lens:
      "length (draw_cells sample_config sample_platform (preview_cells sample_config sample_game)) = 4"
      "length (draw_cells sample_config sample_platform (ghost_cells sample_config sample_game)) = 4"
      "length (draw_cells sample_config sample_platform (board_cells sample_config sample_game)) = 10"
      "length (draw_cells sample_config sample_platform (falling_cells sample_config sample_game)) = 4"
    by (simp_all add: draw_cells_length preview_cells_def ghost_cells_def board_cells_def
        falling_cells_def grid_cells_def sample_defs upto.simps)
  have hud: "length (hud_numerals sample_config sample_platform sample_game) = 61"
    by (simp add: hud_numerals_def sample_defs drawNumber_def drawNumber_loop_length)
  from renderGame_order [OF changed, of sample_config sample_platform] flags
  have "renderGame sample_config sample_platform sample_game =
       [SDL_BlitSurface (Some 3) None (Some 1) None]
       @ draw_cells sample_config sample_platform (preview_cells sample_config sample_game)
       @ draw_cells sample_config sample_platform (ghost_cells sample_config sample_game)
       @ draw_cells sample_config sample_platform (board_cells sample_config sample_game)
       @ draw_cells sample_config sample_platform (falling_cells sample_config sample_game)
       @ hud_numerals sample_config sample_platform sample_game
       @ [onChangeProcessed, SDL_Flip (Some 1), SDL_Delay 40]"
    by simp
  with changed lens hud show ?thesis by simp
qed

subsection \<open>Sprite atlas renderer\<close>

text \<open>
  Claim C3, amended. For a field width \<open>len\<close> of at least one, \<open>drawNumber\<close> issues exactly
  \<open>len\<close> glyph blits whatever the number; the \<open>k\<close>-th of them draws the digit
  \<open>(number / 10^k) % 10\<close> (the truncating operators of the source, which for a non-negative
  number give the decimal digit \<open>(number div 10^k) mod 10\<close>) at the horizontal position
  \<open>x + NUMBER_WIDTH * (len - k)\<close>, stored as a 16-bit coordinate: least significant digit
  first, one digit width further left each time, leading zeros included. The number 7 in a
  field of 3 gives the digits 7, 0, 0 from right to left.
\<close>

theorem drawNumber_digits:
  "1 \<le> len \<Longrightarrow>
     length (drawNumber K p x y number len color) = nat len
   \<and> drawNumber K p x y number len color =
       map (\<lambda>k. glyph_blit K p x y len color ((number sdiv 10 ^ k) smod 10) (int k))
         [0..<nat len]
   \<and> (0 \<le> number \<longrightarrow>
        (\<forall>k. (number sdiv 10 ^ k) smod 10 = (number div 10 ^ k) mod 10))
   \<and> drawNumber K p x y 7 3 color =
       [glyph_blit K p x y 3 color 7 0, glyph_blit K p x y 3 color 0 1,
        glyph_blit K p x y 3 color 0 2]"
proof (intro conjI impI allI)
  assume len: "1 \<le> len"
  then show eq: "drawNumber K p x y number len color =
       map (\<lambda>k. glyph_blit K p x y len color ((number sdiv 10 ^ k) smod 10) (int k))
         [0..<nat len]"
    by (simp add: drawNumber_def drawNumber_loop_eq)
  show "length (drawNumber K p x y number len color) = nat len"
    by (simp add: eq)
  show "drawNumber K p x y 7 3 color =
       [glyph_blit K p x y 3 color 7 0, glyph_blit K p x y 3 color 0 1,
        glyph_blit K p x y 3 color 0 2]"
    by (simp add: drawNumber_def drawNumber_loop_eq upt_rec signed_divide_int_def
        signed_modulo_int_def)
next
  fix k assume "0 \<le> number"
  then show "(number sdiv 10 ^ k) smod 10 = (number div 10 ^ k) mod 10"
    by (rule sdiv_smod_nonneg)
qed

theorem drawNumber_digits_witness:
  "(1::int) \<le> 3
   \<and> length (drawNumber sample_config sample_platform 108 16 7 3 0) = 3
   \<and> drawNumber sample_config sample_platform 108 16 7 3 0 =
       [SDL_BlitSurface (Some 4) (Some \<lparr>rect_x = 49, rect_y = 0, rect_w = 7, rect_h = 9\<rparr>)
          (Some 1) (Some (129, 16)),
        SDL_BlitSurface (Some 4) (Some \<lparr>rect_x = 0, rect_y = 0, rect_w = 7, rect_h = 9\<rparr>)
          (Some 1) (Some (122, 16)),
        SDL_BlitSurface (Some 4) (Some \<lparr>rect_x = 0, rect_y = 0, rect_w = 7, rect_h = 9\<rparr>)
          (Some 1) (Some (115, 16))]"
proof -
  have len: "(1::int) \<le> 3" by simp
  note th = drawNumber_digits [OF len, of sample_config sample_platform 108 16 7 0]
  from th have "drawNumber sample_config sample_platform 108 16 7 3 0 =
      [glyph_blit sample_config sample_platform 108 16 3 0 7 0,
       glyph_blit sample_config sample_platform 108 16 3 0 0 1,
       glyph_blit sample_config sample_platform 108 16 3 0 0 2]"
    by blast
  moreover from th have "length (drawNumber sample_config sample_platform 108 16 7 3 0) = 3"
    by simp
  ultimately show ?thesis
    by (simp add: glyph_blit_def sample_config_def sample_platform_def sample_layout_def)
qed

text \<open>
  Claim C3 as it is stated fails for a field width of zero: the call still issues a blit,
  so the number of blits is not the field width.
\<close>

theorem drawNumber_zero_length_counterexample:
  "length (drawNumber sample_config sample_platform 108 16 7 0 0) \<noteq> nat 0"
  by (simp add: drawNumber_def drawNumber_loop_last)

text \<open>
  Claim C10. \<open>drawNumber\<close> issues \<open>max(len, 1)\<close> glyph blits: for a field width of zero or
  less the body of the loop still runs once, and the one blit is the last digit of the
  number.
\<close>

theorem drawNumber_degenerate_length:
  "length (drawNumber K p x y number len color) = nat (max len 1)
   \<and> (len \<le> 0 \<longrightarrow>
        drawNumber K p x y number len color = [glyph_blit K p x y len color (number smod 10) 0])"
  by (simp add: drawNumber_def drawNumber_loop_length drawNumber_loop_last)

theorem drawNumber_degenerate_length_witness:
  "length (drawNumber sample_config sample_platform 108 16 7 0 0) = 1
   \<and> length (drawNumber sample_config sample_platform 108 16 7 (- 3) 0) = 1
   \<and> drawNumber sample_config sample_platform 108 16 7 0 0 =
       [SDL_BlitSurface (Some 4) (Some \<lparr>rect_x = 49, rect_y = 0, rect_w = 7, rect_h = 9\<rparr>)
          (Some 1) (Some (108, 16))]"
  using drawNumber_degenerate_length [of sample_config sample_platform 108 16 7 0 0]
    drawNumber_degenerate_length [of sample_config sample_platform 108 16 7 "- 3" 0]
  by (simp add: glyph_blit_def sample_config_def sample_platform_def sample_layout_def
      signed_modulo_int_def)




subsection \<open>Input event mapper\<close>

text \<open>
  Claim C7. \<open>processEvents\<close> delivers, record by record and in the order of the queue, the
  events of the key table: the quit signal and the escape key start \<open>EVENT_QUIT\<close>; the
  key-down of a key of the table starts exactly its event; the key-up of a held key (left,
  right, down, under either of their two keys) ends exactly its event; a key outside the
  table gives no event, on key-down and on key-up. A left-arrow key-down followed by its
  key-up gives the start and then the end of \<open>EVENT_MOVE_LEFT\<close>.
\<close>

theorem processEvents_table:
  "processEvents K q = concat (map (record_events K) q)
   \<and> processEvents K [SDL_QUIT] = [onEventStart EVENT_QUIT]
   \<and> map (\<lambda>k. processEvents K [SDL_KEYDOWN k])
        [SDLK_ESCAPE, SDLK_s, SDLK_DOWN, SDLK_w, SDLK_UP, SDLK_a, SDLK_LEFT, SDLK_d,
         SDLK_RIGHT, SDLK_SPACE, SDLK_F5, SDLK_F1, SDLK_F2] =
       map (\<lambda>e. [onEventStart e])
        [EVENT_QUIT, EVENT_MOVE_DOWN, EVENT_MOVE_DOWN, EVENT_ROTATE_CW, EVENT_ROTATE_CW,
         EVENT_MOVE_LEFT, EVENT_MOVE_LEFT, EVENT_MOVE_RIGHT, EVENT_MOVE_RIGHT, EVENT_DROP,
         EVENT_RESTART, EVENT_PAUSE, EVENT_SHOW_NEXT]
   \<and> (STC_SHOW_GHOST_PIECE K \<longrightarrow>
        processEvents K [SDL_KEYDOWN SDLK_F3] = [onEventStart EVENT_SHOW_SHADOW])
   \<and> map (\<lambda>k. processEvents K [SDL_KEYUP k])
        [SDLK_s, SDLK_DOWN, SDLK_a, SDLK_LEFT, SDLK_d, SDLK_RIGHT] =
       map (\<lambda>e. [onEventEnd e])
        [EVENT_MOVE_DOWN, EVENT_MOVE_DOWN, EVENT_MOVE_LEFT, EVENT_MOVE_LEFT,
         EVENT_MOVE_RIGHT, EVENT_MOVE_RIGHT]
   \<and> (\<forall>k e held. map_of (key_table K) k = Some (e, held) \<longrightarrow>
         processEvents K [SDL_KEYDOWN k] = [onEventStart e])
   \<and> (\<forall>k e. map_of (key_table K) k = Some (e, True) \<longrightarrow>
         processEvents K [SDL_KEYUP k] = [onEventEnd e])
   \<and> (\<forall>k. map_of (key_table K) k = None \<longrightarrow>
         processEvents K [SDL_KEYDOWN k] = [] \<and> processEvents K [SDL_KEYUP k] = [])
   \<and> (\<forall>n. processEvents K [SDL_KEYDOWN (SDLK_other n)] = []
         \<and> processEvents K [SDL_KEYUP (SDLK_other n)] = [])
   \<and> processEvents K [SDL_KEYDOWN SDLK_LEFT, SDL_KEYUP SDLK_LEFT] =
       [onEventStart EVENT_MOVE_LEFT, onEventEnd EVENT_MOVE_LEFT]"
proof -
  have table: "processEvents K q = concat (map (record_events K) q)" for q
    by (rule processEvents_record_events)
  have quit: "processEvents K [SDL_QUIT] = [onEventStart EVENT_QUIT]"
    unfolding table by (simp add: record_events_def)
  have downs: "map (\<lambda>k. processEvents K [SDL_KEYDOWN k])
        [SDLK_ESCAPE, SDLK_s, SDLK_DOWN, SDLK_w, SDLK_UP, SDLK_a, SDLK_LEFT, SDLK_d,
         SDLK_RIGHT, SDLK_SPACE, SDLK_F5, SDLK_F1, SDLK_F2] =
       map (\<lambda>e. [onEventStart e])
        [EVENT_QUIT, EVENT_MOVE_DOWN, EVENT_MOVE_DOWN, EVENT_ROTATE_CW, EVENT_ROTATE_CW,
         EVENT_MOVE_LEFT, EVENT_MOVE_LEFT, EVENT_MOVE_RIGHT, EVENT_MOVE_RIGHT, EVENT_DROP,
         EVENT_RESTART, EVENT_PAUSE, EVENT_SHOW_NEXT]"
    unfolding table by (simp add: record_events_def key_table_def)
  have ghost: "STC_SHOW_GHOST_PIECE K \<longrightarrow>
        processEvents K [SDL_KEYDOWN SDLK_F3] = [onEventStart EVENT_SHOW_SHADOW]"
    unfolding table by (simp add: record_events_def key_table_def)
  have ups: "map (\<lambda>k. processEvents K [SDL_KEYUP k])
        [SDLK_s, SDLK_DOWN, SDLK_a, SDLK_LEFT, SDLK_d, SDLK_RIGHT] =
       map (\<lambda>e. [onEventEnd e])
        [EVENT_MOVE_DOWN, EVENT_MOVE_DOWN, EVENT_MOVE_LEFT, EVENT_MOVE_LEFT,
         EVENT_MOVE_RIGHT, EVENT_MOVE_RIGHT]"
    unfolding table by (simp add: record_events_def key_table_def)
  have started: "\<forall>k e held. map_of (key_table K) k = Some (e, held) \<longrightarrow>
         processEvents K [SDL_KEYDOWN k] = [onEventStart e]"
    unfolding table by (simp add: record_events_def)
  have ended: "\<forall>k e. map_of (key_table K) k = Some (e, True) \<longrightarrow>
         processEvents K [SDL_KEYUP k] = [onEventEnd e]"
    unfolding table by (simp add: record_events_def)
  have unmapped: "\<forall>k. map_of (key_table K) k = None \<longrightarrow>
         processEvents K [SDL_KEYDOWN k] = [] \<and> processEvents K [SDL_KEYUP k] = []"
    unfolding table by (simp add: record_events_def)
  have others: "\<forall>n. processEvents K [SDL_KEYDOWN (SDLK_other n)] = []
         \<and> processEvents K [SDL_KEYUP (SDLK_other n)] = []"
    unfolding table by (simp add: record_events_def key_table_def)
  have scenario: "processEvents K [SDL_KEYDOWN SDLK_LEFT, SDL_KEYUP SDLK_LEFT] =
       [onEventStart EVENT_MOVE_LEFT, onEventEnd EVENT_MOVE_LEFT]"
    unfolding table by (simp add: record_events_def key_table_def)
  show ?thesis
    by (intro conjI)
      (rule table quit downs ghost ups started ended unmapped others scenario)+
qed

theorem processEvents_table_witness:
  "map_of (key_table sample_config) SDLK_SPACE = Some (EVENT_DROP, False)
   \<and> processEvents sample_config [SDL_KEYDOWN SDLK_SPACE] = [onEventStart EVENT_DROP]
   \<and> STC_SHOW_GHOST_PIECE sample_config
   \<and> processEvents sample_config [SDL_KEYDOWN SDLK_F3] = [onEventStart EVENT_SHOW_SHADOW]
   \<and> map_of (key_table sample_config) SDLK_d = Some (EVENT_MOVE_RIGHT, True)
   \<and> processEvents sample_config [SDL_KEYUP SDLK_d] = [onEventEnd EVENT_MOVE_RIGHT]
   \<and> map_of (key_table sample_config) (SDLK_other 113) = None
   \<and> processEvents sample_config [SDL_KEYDOWN (SDLK_other 113)] = []
   \<and> processEvents sample_config [SDL_KEYUP (SDLK_other 113)] = []
   \<and> processEvents sample_config
        [SDL_KEYDOWN SDLK_LEFT, SDL_other_event 4, SDL_KEYDOWN (SDLK_other 113),
         SDL_KEYUP SDLK_SPACE, SDL_KEYUP SDLK_LEFT, SDL_QUIT] =
       [onEventStart EVENT_MOVE_LEFT, onEventEnd EVENT_MOVE_LEFT, onEventStart EVENT_QUIT]"
proof -
  note th = processEvents_table [of sample_config]
  have k1: "map_of (key_table sample_config) SDLK_SPACE = Some (EVENT_DROP, False)"
    and k2: "map_of (key_table sample_config) SDLK_d = Some (EVENT_MOVE_RIGHT, True)"
    and k3: "map_of (key_table sample_config) (SDLK_other 113) = None"
    by (simp_all add: key_table_def)
  have flag: "STC_SHOW_GHOST_PIECE sample_config"
    by (simp add: sample_config_def)
  from th k1 have "processEvents sample_config [SDL_KEYDOWN SDLK_SPACE] = [onEventStart EVENT_DROP]"
    by blast
  moreover from th flag
  have "processEvents sample_config [SDL_KEYDOWN SDLK_F3] = [onEventStart EVENT_SHOW_SHADOW]"
    by blast
  moreover from th k2 have "processEvents sample_config [SDL_KEYUP SDLK_d] = [onEventEnd EVENT_MOVE_RIGHT]"
    by blast
  moreover from th k3 have "processEvents sample_config [SDL_KEYDOWN (SDLK_other 113)] = []"
    "processEvents sample_config [SDL_KEYUP (SDLK_other 113)] = []"
    by blast+
  moreover have "processEvents sample_config
        [SDL_KEYDOWN SDLK_LEFT, SDL_other_event 4, SDL_KEYDOWN (SDLK_other 113),
         SDL_KEYUP SDLK_SPACE, SDL_KEYUP SDLK_LEFT, SDL_QUIT] =
       [onEventStart EVENT_MOVE_LEFT, onEventEnd EVENT_MOVE_LEFT, onEventStart EVENT_QUIT]"
    by (subst conjunct1 [OF processEvents_table]) (simp add: record_events_def key_table_def)
  ultimately show ?thesis
    using k1 k2 k3 flag by simp
qed

subsection \<open>Resource lifecycle manager\<close>

text \<open>
  Claim C5, amended. \<open>init\<close> makes its calls in the order of the specification: the seed
  from the clock, the video and audio subsystems, the surface, the caption, the three
  images, the mixer, the music and the two sounds, the music loop. A run that fails stops
  after the failing step, with the calls made so far. A failure of \<open>SDL_Init\<close> and a failure
  to open the mixer both return \<open>ERROR_PLATFORM\<close>; a missing surface returns
  \<open>ERROR_NO_VIDEO\<close>, a missing image \<open>ERROR_NO_IMAGES\<close>, and these three statuses and
  \<open>ERROR_NONE\<close> differ from each other.
\<close>

theorem init_order_and_status:
  "(SDL_Init_ret env < 0 \<longrightarrow>
      fst (init K env p game) = ERROR_PLATFORM
      \<and> snd (snd (init K env p game)) = take 2 (init_sequence K env))
   \<and> (0 \<le> SDL_Init_ret env \<and> SDL_SetVideoMode_ret env = None \<longrightarrow>
      fst (init K env p game) = ERROR_NO_VIDEO
      \<and> snd (snd (init K env p game)) = take 3 (init_sequence K env))
   \<and> (0 \<le> SDL_Init_ret env \<and> SDL_SetVideoMode_ret env \<noteq> None
        \<and> (IMG_Load_ret env STC_BMP_TILE_BLOCKS = None
            \<or> IMG_Load_ret env STC_BMP_BACKGROUND = None
            \<or> IMG_Load_ret env STC_BMP_NUMBERS = None) \<longrightarrow>
      fst (init K env p game) = ERROR_NO_IMAGES
      \<and> snd (snd (init K env p game)) = take 7 (init_sequence K env))
   \<and> (0 \<le> SDL_Init_ret env \<and> SDL_SetVideoMode_ret env \<noteq> None
        \<and> IMG_Load_ret env STC_BMP_TILE_BLOCKS \<noteq> None
        \<and> IMG_Load_ret env STC_BMP_BACKGROUND \<noteq> None
        \<and> IMG_Load_ret env STC_BMP_NUMBERS \<noteq> None
        \<and> Mix_OpenAudio_ret env \<noteq> 0 \<longrightarrow>
      fst (init K env p game) = ERROR_PLATFORM
      \<and> snd (snd (init K env p game)) = take 8 (init_sequence K env))
   \<and> (0 \<le> SDL_Init_ret env \<and> SDL_SetVideoMode_ret env \<noteq> None
        \<and> IMG_Load_ret env STC_BMP_TILE_BLOCKS \<noteq> None
        \<and> IMG_Load_ret env STC_BMP_BACKGROUND \<noteq> None
        \<and> IMG_Load_ret env STC_BMP_NUMBERS \<noteq> None
        \<and> Mix_OpenAudio_ret env = 0 \<longrightarrow>
      fst (init K env p game) = ERROR_NONE
      \<and> snd (snd (init K env p game)) = init_sequence K env)
   \<and> distinct [ERROR_NONE, ERROR_PLATFORM, ERROR_NO_VIDEO, ERROR_NO_IMAGES]"
  by (simp add: init_def init_sequence_def Let_def)

theorem init_order_and_status_witness:
  "init sample_config sample_env null_platform 0 =
     (ERROR_NONE, sample_platform, init_sequence sample_config sample_env)
   \<and> fst (init sample_config (sample_env\<lparr>SDL_Init_ret := - 1\<rparr>) null_platform 0) = ERROR_PLATFORM
   \<and> snd (snd (init sample_config (sample_env\<lparr>SDL_Init_ret := - 1\<rparr>) null_platform 0)) =
       [srand 1300000000, SDL_Init [SDL_INIT_VIDEO, SDL_INIT_AUDIO]]
   \<and> fst (init sample_config (sample_env\<lparr>SDL_SetVideoMode_ret := None\<rparr>) null_platform 0) =
       ERROR_NO_VIDEO
   \<and> fst (init sample_config (sample_env\<lparr>IMG_Load_ret := (\<lambda>a. None)\<rparr>) null_platform 0) =
       ERROR_NO_IMAGES
   \<and> fst (init sample_config (sample_env\<lparr>Mix_OpenAudio_ret := - 1\<rparr>) null_platform 0) =
       ERROR_PLATFORM
   \<and> length (snd (snd (init sample_config (sample_env\<lparr>Mix_OpenAudio_ret := - 1\<rparr>) null_platform 0))) = 8"
proof -
  have ok: "fst (init sample_config sample_env null_platform 0) = ERROR_NONE"
      "snd (snd (init sample_config sample_env null_platform 0)) =
         init_sequence sample_config sample_env"
    using init_order_and_status [of sample_env sample_config null_platform 0]
    by (simp_all add: sample_env_def)
  have members: "fst (snd (init sample_config sample_env null_platform 0)) = sample_platform"
    by (simp add: init_def Let_def sample_env_def null_platform_def sample_platform_def)
  have full: "init sample_config sample_env null_platform 0 =
     (ERROR_NONE, sample_platform, init_sequence sample_config sample_env)"
    using ok members by (simp add: prod_eq_iff)
  have e1: "fst (init sample_config (sample_env\<lparr>SDL_Init_ret := - 1\<rparr>) null_platform 0) = ERROR_PLATFORM"
    "snd (snd (init sample_config (sample_env\<lparr>SDL_Init_ret := - 1\<rparr>) null_platform 0)) =
       [srand 1300000000, SDL_Init [SDL_INIT_VIDEO, SDL_INIT_AUDIO]]"
    using init_order_and_status [of "sample_env\<lparr>SDL_Init_ret := - 1\<rparr>" sample_config null_platform 0]
    by (simp_all add: sample_env_def init_sequence_def)
  have e2: "fst (init sample_config (sample_env\<lparr>SDL_SetVideoMode_ret := None\<rparr>) null_platform 0) =
       ERROR_NO_VIDEO"
    using init_order_and_status [of "sample_env\<lparr>SDL_SetVideoMode_ret := None\<rparr>" sample_config null_platform 0]
    by (simp add: sample_env_def)
  have e3: "fst (init sample_config (sample_env\<lparr>IMG_Load_ret := (\<lambda>a. None)\<rparr>) null_platform 0) =
       ERROR_NO_IMAGES"
    using init_order_and_status [of "sample_env\<lparr>IMG_Load_ret := (\<lambda>a. None)\<rparr>" sample_config null_platform 0]
    by (simp add: sample_env_def)
  have e4: "fst (init sample_config (sample_env\<lparr>Mix_OpenAudio_ret := - 1\<rparr>) null_platform 0) =
       ERROR_PLATFORM"
    "length (snd (snd (init sample_config (sample_env\<lparr>Mix_OpenAudio_ret := - 1\<rparr>) null_platform 0))) = 8"
    using init_order_and_status [of "sample_env\<lparr>Mix_OpenAudio_ret := - 1\<rparr>" sample_config null_platform 0]
    by (simp_all add: sample_env_def init_sequence_def)
  show ?thesis
    using full e1 e2 e3 e4 by simp
qed

text \<open>
  Claim C5 as it is stated fails: a failure to open the mixer has the status of a failure
  of \<open>SDL_Init\<close>, not one of its own.
\<close>

theorem init_mixer_status_counterexample:
  "fst (init sample_config (sample_env\<lparr>Mix_OpenAudio_ret := - 1\<rparr>) null_platform 0) =
   fst (init sample_config (sample_env\<lparr>SDL_Init_ret := - 1\<rparr>) null_platform 0)"
  by (simp add: init_def Let_def sample_env_def)

text \<open>
  Claim C4 does not hold of the source. When every other step succeeds and the music file
  cannot be loaded, \<open>init\<close> stores the null pointer, starts the music loop with it and
  returns \<open>ERROR_NONE\<close>.
\<close>

theorem init_missing_music:
  "init sample_config (sample_env\<lparr>Mix_LoadMUS_ret := (\<lambda>a. None)\<rparr>) null_platform 0 =
     (ERROR_NONE,
      sample_platform\<lparr>mMusic := None\<rparr>,
      [srand 1300000000, SDL_Init [SDL_INIT_VIDEO, SDL_INIT_AUDIO],
       SDL_SetVideoMode 480 272 32 0, SDL_WM_SetCaption,
       IMG_Load STC_BMP_TILE_BLOCKS, IMG_Load STC_BMP_BACKGROUND, IMG_Load STC_BMP_NUMBERS,
       Mix_OpenAudio 44100 AUDIO_S16 2 4096,
       Mix_LoadMUS STC_SND_MUSIC, Mix_LoadWAV STC_SND_LINE, Mix_LoadWAV STC_SND_DROP,
       Mix_PlayMusic None (- 1)])"
  by (simp add: init_def Let_def sample_env_def null_platform_def sample_platform_def
      sample_config_def sample_layout_def)

end
